theory Spec2Isabelle
  imports Complex_Main "HOL-Library.Product_Lexorder" "HOL-Library.Multiset"
begin

section \<open>RankScore: the scoring pipeline, the history store and the access gate\<close>

text \<open>
  The development follows the Streamlit application of the repository (the part of
  \<^verbatim>\<open>src/api.py\<close> after the marker \<^verbatim>\<open>main (3).py\<close>). Python exceptions are values of
  the type \<open>pyexc\<close>; a function that can raise returns \<open>pyexc + 'a\<close> with \<open>Inl\<close> for
  the exception. Every constructor of \<open>pyexc\<close> is a subclass of Python's \<^verbatim>\<open>Exception\<close>,
  so an \<^verbatim>\<open>except Exception\<close> clause catches all of them.
\<close>

datatype pyexc =
    NameError string
  | UnboundLocalError string
  | TypeError
  | KeyError string
  | RequestException string
  | ParserError string
  | IntegrityError
  | OperationalError
  | ProgrammingError

subsection \<open>Scorer: \<^verbatim>\<open>calculate_rankscore\<close>\<close>

text \<open>
  The arguments of \<^verbatim>\<open>calculate_rankscore\<close> as the extractors build them. The title is
  \<^verbatim>\<open>soup.title.string\<close>, which is \<^verbatim>\<open>None\<close> for a title element without a single
  string child, hence the option; the sentinel of an absent element is the string
  \<^verbatim>\<open>"Missing"\<close>.
\<close>

record metadata =
  title :: "string option"
  description :: string
  recommendation :: string

record headers =
  h1_present :: bool
  h2_present :: bool
  h1_count :: nat
  h2_count :: nat

record subscores =
  content_structure :: int
  technical :: int
  metadata_sub :: int
  accessibility_sub :: int

record component_scores =
  c_structured_data :: int
  c_faq :: int
  c_headers :: int
  c_title :: int
  c_speed :: int
  c_description :: int
  c_mobile :: int
  c_accessibility :: int

record score_data =
  total_score :: int
  subscores :: subscores
  component_scores :: component_scores

definition calculate_rankscore ::
  "metadata \<Rightarrow> headers \<Rightarrow> bool \<Rightarrow> bool \<Rightarrow> bool \<Rightarrow> bool \<Rightarrow> int \<Rightarrow> score_data" where
  "calculate_rankscore md hs structured_data faq_present mobile_friendly accessibility
       performance_score =
    (let structured_data_score = (if structured_data then 25 else 0);
         faq_score = (if faq_present then 20 else 0);
         header_score = (if h1_present hs then 15 else 0);
         title_score = (if title md \<noteq> Some ''Missing'' then 10 else 0);
         speed_score = (if performance_score \<ge> 80 then 10 else 0);
         description_score = (if description md \<noteq> ''Missing'' then 8 else 0);
         mobile_score = (if mobile_friendly then 7 else 0);
         accessibility_score = (if accessibility then 5 else 0);
         total = structured_data_score + faq_score + header_score + title_score
                 + speed_score + description_score + mobile_score + accessibility_score
     in \<lparr> total_score = total,
          subscores = \<lparr> content_structure = structured_data_score + faq_score + header_score,
                        technical = speed_score + mobile_score,
                        metadata_sub = title_score + description_score,
                        accessibility_sub = accessibility_score \<rparr>,
          component_scores = \<lparr> c_structured_data = structured_data_score, c_faq = faq_score,
                               c_headers = header_score, c_title = title_score,
                               c_speed = speed_score, c_description = description_score,
                               c_mobile = mobile_score, c_accessibility = accessibility_score \<rparr> \<rparr>)"

text \<open>The sum of the eight entries of the component breakdown.\<close>

definition component_sum :: "component_scores \<Rightarrow> int" where
  "component_sum c = c_structured_data c + c_faq c + c_headers c + c_title c
                     + c_speed c + c_description c + c_mobile c + c_accessibility c"

text \<open>The fixed point allocation of section 4.2 of the specification, signal by signal.\<close>

definition allocation_ok ::
  "metadata \<Rightarrow> headers \<Rightarrow> bool \<Rightarrow> bool \<Rightarrow> bool \<Rightarrow> bool \<Rightarrow> int \<Rightarrow> component_scores \<Rightarrow> bool" where
  "allocation_ok md hs sd faq mob acc perf c =
    (c_structured_data c = (if sd then 25 else 0) \<and>
     c_faq c = (if faq then 20 else 0) \<and>
     c_headers c = (if h1_present hs then 15 else 0) \<and>
     c_title c = (if title md = Some ''Missing'' then 0 else 10) \<and>
     c_speed c = (if 80 \<le> perf then 10 else 0) \<and>
     c_description c = (if description md = ''Missing'' then 0 else 8) \<and>
     c_mobile c = (if mob then 7 else 0) \<and>
     c_accessibility c = (if acc then 5 else 0))"

subsection \<open>Parsed documents\<close>

text \<open>
  A parsed page is the forest of its top-level nodes. An element carries its name, its
  attributes in source order and its children; \<^verbatim>\<open>find_all\<close> walks the descendants in
  document order and keeps the elements of the given name whose attributes pass the
  filter. \<^verbatim>\<open>tag.has_attr(k)\<close> and the filter \<^verbatim>\<open>k=True\<close> both ask whether the
  attribute is present, whatever its value.
\<close>

datatype node = Tag string "(string \<times> string) list" "node list" | NavigableString string

type_synonym soup = "node list"

fun descendants :: "node \<Rightarrow> node list" where
  "descendants (Tag n as cs) = concat (map (\<lambda>c. c # descendants c) cs)"
| "descendants (NavigableString s) = []"

definition soup_descendants :: "soup \<Rightarrow> node list" where
  "soup_descendants sp = concat (map (\<lambda>c. c # descendants c) sp)"

fun tag_named :: "string \<Rightarrow> node \<Rightarrow> bool" where
  "tag_named nm (Tag n as cs) = (n = nm)"
| "tag_named nm (NavigableString s) = False"

fun attrs :: "node \<Rightarrow> (string \<times> string) list" where
  "attrs (Tag n as cs) = as"
| "attrs (NavigableString s) = []"

fun contents :: "node \<Rightarrow> node list" where
  "contents (Tag n as cs) = cs"
| "contents (NavigableString s) = []"

definition has_attr :: "string \<Rightarrow> node \<Rightarrow> bool" where
  "has_attr k t = (map_of (attrs t) k \<noteq> None)"

definition find_all :: "string \<Rightarrow> (node \<Rightarrow> bool) \<Rightarrow> soup \<Rightarrow> node list" where
  "find_all nm flt sp = filter (\<lambda>t. tag_named nm t \<and> flt t) (soup_descendants sp)"

text \<open>\<^verbatim>\<open>soup.title\<close> is the first element named \<^verbatim>\<open>title\<close>, or \<^verbatim>\<open>None\<close>.\<close>

definition soup_title :: "soup \<Rightarrow> node option" where
  "soup_title sp = find (tag_named ''title'') (soup_descendants sp)"

subsection \<open>Accessibility extractor: \<^verbatim>\<open>analyze_accessibility\<close>\<close>

definition analyze_accessibility :: "soup \<Rightarrow> bool" where
  "analyze_accessibility sp =
     (let images = find_all ''img'' (\<lambda>t. True) sp;
          images_with_alt = filter (has_attr ''alt'') images
      in length images_with_alt = length images)"

text \<open>
  The signal as the specification words it: the number of images with a non-empty alt
  attribute equals the number of images. It is compared with the extractor below.
\<close>

definition nonempty_alt :: "node \<Rightarrow> bool" where
  "nonempty_alt t = (case map_of (attrs t) ''alt'' of None \<Rightarrow> False | Some v \<Rightarrow> v \<noteq> [])"

definition spec_accessibility :: "soup \<Rightarrow> bool" where
  "spec_accessibility sp =
     (length (filter nonempty_alt (find_all ''img'' (\<lambda>t. True) sp))
        = length (find_all ''img'' (\<lambda>t. True) sp))"

subsection \<open>The outside world of one analysis\<close>

text \<open>
  Python values as far as the resource discovery of \<^verbatim>\<open>analyze_page_speed\<close> handles them,
  with item access \<^verbatim>\<open>obj[key]\<close> for a string key, the operator \<^verbatim>\<open>+\<close> and iteration. A
  \<^verbatim>\<open>ResultSet\<close> is a list. Adding a tuple to a list raises \<^verbatim>\<open>TypeError\<close>.
\<close>

datatype pyval =
    PNone
  | PInt int
  | PStr string
  | PTag node
  | PList "pyval list"
  | PTuple "pyval list"

fun py_getitem :: "pyval \<Rightarrow> string \<Rightarrow> pyexc + pyval" where
  "py_getitem (PTag t) k =
     (case map_of (attrs t) k of None \<Rightarrow> Inl (KeyError k) | Some v \<Rightarrow> Inr (PStr v))"
| "py_getitem v k = Inl TypeError"

fun py_add :: "pyval \<Rightarrow> pyval \<Rightarrow> pyexc + pyval" where
  "py_add (PList xs) (PList ys) = Inr (PList (xs @ ys))"
| "py_add (PTuple xs) (PTuple ys) = Inr (PTuple (xs @ ys))"
| "py_add (PStr a) (PStr b) = Inr (PStr (a @ b))"
| "py_add (PInt a) (PInt b) = Inr (PInt (a + b))"
| "py_add v w = Inl TypeError"

fun py_iter :: "pyval \<Rightarrow> pyexc + pyval list" where
  "py_iter (PList xs) = Inr xs"
| "py_iter (PTuple xs) = Inr xs"
| "py_iter (PStr s) = Inr (map (\<lambda>c. PStr [c]) s)"
| "py_iter (PTag t) = Inr (map PTag (contents t))"
| "py_iter v = Inl TypeError"

text \<open>
  The network, the parser and the clock are inputs. \<open>http_get\<close> is
  \<^verbatim>\<open>requests.get(url).text\<close>, \<open>parse_html\<close> is \<^verbatim>\<open>BeautifulSoup(text, "html.parser")\<close>,
  \<open>http_head\<close> is the content length a \<^verbatim>\<open>HEAD\<close> request reports, \<open>url_origin\<close> is
  scheme and host of a url. \<open>ttfb_ms\<close> and \<open>total_ms\<close> are the two readings of
  \<^verbatim>\<open>time.time()\<close> against the start time, in milliseconds, as \<^verbatim>\<open>round(_, 2)\<close>
  returns them. \<open>module_globals\<close> holds the names visible from the function body besides
  its own local variables.
\<close>

record world =
  http_get :: "string \<Rightarrow> pyexc + string"
  parse_html :: "string \<Rightarrow> pyexc + soup"
  http_head :: "string \<Rightarrow> pyexc + int"
  url_origin :: "string \<Rightarrow> string"
  ttfb_ms :: rat
  total_ms :: rat
  module_globals :: "string \<rightharpoonup> pyval"

subsection \<open>Lite score: \<^verbatim>\<open>analyze_lite_aeo\<close>\<close>

text \<open>\<^verbatim>\<open>bool(soup.title)\<close> is true for every element, also an empty one.\<close>

definition analyze_lite_aeo :: "world \<Rightarrow> string \<Rightarrow> int" where
  "analyze_lite_aeo w url =
     (case http_get w url of
        Inl e \<Rightarrow> 0
      | Inr text \<Rightarrow>
          (case parse_html w text of
             Inl e \<Rightarrow> 0
           | Inr sp \<Rightarrow>
               (let title_present = (soup_title sp \<noteq> None)
                in if title_present then 65 else 50)))"

subsection \<open>Speed extractor: \<^verbatim>\<open>analyze_page_speed\<close>\<close>

record speed_metrics =
  error :: "pyexc option"
  total_time :: rat
  time_to_first_byte :: rat
  resource_count :: nat
  total_size :: int
  resource_types :: "(string \<times> nat) list"
  performance_score :: int

text \<open>
  A name that no scope binds raises \<^verbatim>\<open>NameError\<close>; a variable of the comprehension
  read before its loop has bound it raises \<^verbatim>\<open>UnboundLocalError\<close>.
\<close>

definition load_global :: "(string \<rightharpoonup> pyval) \<Rightarrow> string \<Rightarrow> pyexc + pyval" where
  "load_global g n = (case g n of None \<Rightarrow> Inl (NameError n) | Some v \<Rightarrow> Inr v)"

definition load_local :: "(string \<rightharpoonup> pyval) \<Rightarrow> string \<Rightarrow> pyexc + pyval" where
  "load_local l n = (case l n of None \<Rightarrow> Inl (UnboundLocalError n) | Some v \<Rightarrow> Inr v)"

text \<open>
  The list comprehension of lines 335 to 339 has three \<^verbatim>\<open>for\<close> clauses. Python reads
  it as
  \<^verbatim>\<open>for script in (soup.find_all("script", src=True) + (link["href"], "css"))\<close>,
  \<^verbatim>\<open>for link in (soup.find_all("link", rel="stylesheet") + (img["src"], "image"))\<close>,
  \<^verbatim>\<open>for img in soup.find_all("img", src=True)\<close>, with the element
  \<^verbatim>\<open>(script["src"], "script")\<close>. The first iterable is evaluated in the scope of the
  function, where \<^verbatim>\<open>link\<close> is not a local variable; the second in the scope of the
  comprehension, whose variables are \<^verbatim>\<open>script\<close>, \<^verbatim>\<open>link\<close> and \<^verbatim>\<open>img\<close>.
\<close>

definition iterable_script :: "(string \<rightharpoonup> pyval) \<Rightarrow> soup \<Rightarrow> pyexc + pyval" where
  "iterable_script g sp =
     (case load_global g ''link'' of
        Inl e \<Rightarrow> Inl e
      | Inr link \<Rightarrow>
          (case py_getitem link ''href'' of
             Inl e \<Rightarrow> Inl e
           | Inr href \<Rightarrow>
               py_add (PList (map PTag (find_all ''script'' (has_attr ''src'') sp)))
                      (PTuple [href, PStr ''css''])))"

definition iterable_link :: "(string \<rightharpoonup> pyval) \<Rightarrow> soup \<Rightarrow> pyexc + pyval" where
  "iterable_link l sp =
     (case load_local l ''img'' of
        Inl e \<Rightarrow> Inl e
      | Inr img \<Rightarrow>
          (case py_getitem img ''src'' of
             Inl e \<Rightarrow> Inl e
           | Inr src \<Rightarrow>
               py_add (PList (map PTag
                         (find_all ''link'' (\<lambda>t. map_of (attrs t) ''rel'' = Some ''stylesheet'') sp)))
                      (PTuple [src, PStr ''image''])))"

definition iterable_img :: "soup \<Rightarrow> pyval list" where
  "iterable_img sp = map PTag (find_all ''img'' (has_attr ''src'') sp)"

text \<open>The three nested loops; each passes on the local variables and the list built so far.\<close>

fun loop_img ::
  "(string \<rightharpoonup> pyval) \<Rightarrow> pyval list \<Rightarrow> pyval list \<Rightarrow> pyexc + (string \<rightharpoonup> pyval) \<times> pyval list" where
  "loop_img l acc [] = Inr (l, acc)"
| "loop_img l acc (x # xs) =
     (case load_local (l(''img'' \<mapsto> x)) ''script'' of
        Inl e \<Rightarrow> Inl e
      | Inr script \<Rightarrow>
          (case py_getitem script ''src'' of
             Inl e \<Rightarrow> Inl e
           | Inr src \<Rightarrow> loop_img (l(''img'' \<mapsto> x)) (acc @ [PTuple [src, PStr ''script'']]) xs))"

fun loop_link ::
  "soup \<Rightarrow> (string \<rightharpoonup> pyval) \<Rightarrow> pyval list \<Rightarrow> pyval list \<Rightarrow> pyexc + (string \<rightharpoonup> pyval) \<times> pyval list" where
  "loop_link sp l acc [] = Inr (l, acc)"
| "loop_link sp l acc (y # ys) =
     (case loop_img (l(''link'' \<mapsto> y)) acc (iterable_img sp) of
        Inl e \<Rightarrow> Inl e
      | Inr (l', acc') \<Rightarrow> loop_link sp l' acc' ys)"

fun loop_script ::
  "soup \<Rightarrow> (string \<rightharpoonup> pyval) \<Rightarrow> pyval list \<Rightarrow> pyval list \<Rightarrow> pyexc + (string \<rightharpoonup> pyval) \<times> pyval list" where
  "loop_script sp l acc [] = Inr (l, acc)"
| "loop_script sp l acc (z # zs) =
     (case iterable_link (l(''script'' \<mapsto> z)) sp of
        Inl e \<Rightarrow> Inl e
      | Inr it \<Rightarrow>
          (case py_iter it of
             Inl e \<Rightarrow> Inl e
           | Inr ys \<Rightarrow>
               (case loop_link sp (l(''script'' \<mapsto> z)) acc ys of
                  Inl e \<Rightarrow> Inl e
                | Inr (l', acc') \<Rightarrow> loop_script sp l' acc' zs)))"

definition discover_resources :: "(string \<rightharpoonup> pyval) \<Rightarrow> soup \<Rightarrow> pyexc + pyval list" where
  "discover_resources g sp =
     (case iterable_script g sp of
        Inl e \<Rightarrow> Inl e
      | Inr it \<Rightarrow>
          (case py_iter it of
             Inl e \<Rightarrow> Inl e
           | Inr zs \<Rightarrow>
               (case loop_script sp Map.empty [] zs of
                  Inl e \<Rightarrow> Inl e
                | Inr (l, acc) \<Rightarrow> Inr acc)))"

text \<open>
  \<^verbatim>\<open>fetch_resource\<close>: the pair is unpacked, a relative url is put behind the origin of
  the page, and a failing probe counts as size 0.
\<close>

definition startswith :: "string \<Rightarrow> string \<Rightarrow> bool" where
  "startswith s p = (take (length p) s = p)"

fun fetch_resource :: "world \<Rightarrow> string \<Rightarrow> pyval \<Rightarrow> pyexc + string \<times> int" where
  "fetch_resource w url (PTuple [PStr resource_url, PStr resource_type]) =
     (let target = (if startswith resource_url ''http://'' \<or> startswith resource_url ''https://''
                    then resource_url else url_origin w url @ resource_url)
      in case http_head w target of
           Inl e \<Rightarrow> Inr (resource_type, 0)
         | Inr n \<Rightarrow> Inr (resource_type, n))"
| "fetch_resource w url v = Inl TypeError"

fun fetch_resources :: "world \<Rightarrow> string \<Rightarrow> pyval list \<Rightarrow> pyexc + (string \<times> int) list" where
  "fetch_resources w url [] = Inr []"
| "fetch_resources w url (r # rs) =
     (case fetch_resource w url r of
        Inl e \<Rightarrow> Inl e
      | Inr x \<Rightarrow>
          (case fetch_resources w url rs of
             Inl e \<Rightarrow> Inl e
           | Inr xs \<Rightarrow> Inr (x # xs)))"

fun count_type :: "string \<Rightarrow> (string \<times> nat) list \<Rightarrow> (string \<times> nat) list" where
  "count_type t [] = [(t, 1)]"
| "count_type t ((k, n) # kvs) =
     (if k = t then (k, n + 1) # kvs else (k, n) # count_type t kvs)"

text \<open>The penalty rule of lines 360 to 365.\<close>

definition penalty_score :: "rat \<Rightarrow> rat \<Rightarrow> nat \<Rightarrow> int \<Rightarrow> int" where
  "penalty_score ttfb ttime rcount tsize =
     (let score = 100;
          score = (if ttfb > 200 then score - 20 else score);
          score = (if ttime > 3000 then score - 20 else score);
          score = (if rcount > 50 then score - 20 else score);
          score = (if tsize > 5000000 then score - 20 else score)
      in max 0 score)"

text \<open>The record of the \<^verbatim>\<open>except\<close> clause; \<open>error\<close> keeps the exception instead of its text.\<close>

definition fallback :: "pyexc \<Rightarrow> speed_metrics" where
  "fallback e = \<lparr> error = Some e, total_time = 0, time_to_first_byte = 0, resource_count = 0,
                  total_size = 0, resource_types = [], performance_score = 0 \<rparr>"

definition analyze_page_speed :: "world \<Rightarrow> string \<Rightarrow> speed_metrics" where
  "analyze_page_speed w url =
     (case http_get w url of
        Inl e \<Rightarrow> fallback e
      | Inr text \<Rightarrow>
          (case parse_html w text of
             Inl e \<Rightarrow> fallback e
           | Inr sp \<Rightarrow>
               (case discover_resources (module_globals w) sp of
                  Inl e \<Rightarrow> fallback e
                | Inr resources \<Rightarrow>
                    (case fetch_resources w url resources of
                       Inl e \<Rightarrow> fallback e
                     | Inr results \<Rightarrow>
                         (let tsize = sum_list (map snd results);
                              types = fold count_type (map fst results) []
                          in \<lparr> error = None, total_time = total_ms w,
                               time_to_first_byte = ttfb_ms w,
                               resource_count = length resources,
                               total_size = tsize, resource_types = types,
                               performance_score =
                                 penalty_score (ttfb_ms w) (total_ms w) (length resources) tsize \<rparr>)))))"

text \<open>
  The score the specification describes: 100 less 20 for each threshold that fires,
  never below 0.
\<close>

definition spec_performance_score :: "rat \<Rightarrow> rat \<Rightarrow> nat \<Rightarrow> int \<Rightarrow> int" where
  "spec_performance_score ttfb ttime rcount tsize =
     max 0 (100 - 20 * int (length (filter id
        [ttfb > 200, ttime > 3000, rcount > 50, tsize > 5000000])))"

text \<open>
  A page that answers quickly and links no resources: one first-byte reading of 50 ms,
  120 ms in all, and no global named \<^verbatim>\<open>link\<close>, as in the module itself.
\<close>

definition quiet_world :: world where
  "quiet_world =
     \<lparr> http_get = (\<lambda>u. Inr ''<html><head><title>Hi</title></head></html>''),
       parse_html = (\<lambda>t. Inr [Tag ''html'' [] [Tag ''head'' [] [Tag ''title'' []
                                   [NavigableString ''Hi'']]]]),
       http_head = (\<lambda>u. Inr 0),
       url_origin = (\<lambda>u. ''https://example.com''),
       ttfb_ms = 50, total_ms = 120, module_globals = Map.empty \<rparr>"

subsection \<open>Access gate: the table \<^verbatim>\<open>access_codes\<close>\<close>

text \<open>
  A row of \<^verbatim>\<open>access_codes\<close> without its generated id, which no statement of the
  program reads; the table is the list of its rows in insertion order.
\<close>

record access_code =
  email :: string
  code :: string
  used :: bool

text \<open>\<^verbatim>\<open>fetchone()\<close> gives the first row of the result set, or \<^verbatim>\<open>None\<close>.\<close>

definition validate_access_code :: "access_code list \<Rightarrow> string \<Rightarrow> access_code option" where
  "validate_access_code tbl user_code = find (\<lambda>r. code r = user_code \<and> \<not> used r) tbl"

text \<open>
  \<^verbatim>\<open>mark_code_as_used\<close> passes \<^verbatim>\<open>(user_code)\<close> as the parameters of its statement:
  the string itself, not a tuple holding it. The database module takes a string as the
  sequence of its characters and raises \<^verbatim>\<open>ProgrammingError\<close> unless there are as many
  of them as placeholders, which is one; the value bound is then that character. The
  exception leaves the table as it was.
\<close>

definition mark_code_as_used :: "access_code list \<Rightarrow> string \<Rightarrow> pyexc + access_code list" where
  "mark_code_as_used tbl user_code =
     (if length user_code \<noteq> 1 then Inl ProgrammingError
      else Inr (map (\<lambda>r. if code r = [user_code ! 0] then r\<lparr>used := True\<rparr> else r) tbl))"

text \<open>
  \<^verbatim>\<open>save_access_code\<close> draws a code (\<open>gen k\<close> is the \<open>k\<close>-th draw of the random
  source), opens a connection and inserts the row. Both columns are unique, so the
  insert raises \<^verbatim>\<open>IntegrityError\<close> when the email or the code is stored already. The
  handler calls the function again from inside the \<^verbatim>\<open>with\<close> block, that is while the
  first connection is open and its transaction, begun by the failed insert, still holds
  the write lock of the database file. The flag \<open>locked\<close> says that an enclosing call
  holds this lock; the insert of the nested call then ends in \<^verbatim>\<open>OperationalError\<close>
  (database is locked), which no handler of the function catches. Leaving the blocks
  closes the connections, which rolls back and releases the lock.
\<close>

function save_access_code ::
  "(nat \<Rightarrow> string) \<Rightarrow> nat \<Rightarrow> bool \<Rightarrow> string \<Rightarrow> access_code list \<Rightarrow> pyexc + string \<times> access_code list"
where
  "save_access_code gen k locked addr tbl =
     (if locked then Inl OperationalError
      else if addr \<in> set (map email tbl) \<or> gen k \<in> set (map code tbl)
      then save_access_code gen (Suc k) True addr tbl
      else Inr (gen k, tbl @ [\<lparr> email = addr, code = gen k, used = False \<rparr>]))"
  by pat_completeness auto
termination
  by (relation "measure (\<lambda>(gen, k, locked, addr, tbl). if locked then 0 else 1)") auto

subsection \<open>History store: the tables \<^verbatim>\<open>scans\<close> and \<^verbatim>\<open>recommendations\<close>\<close>

text \<open>
  A point in time is a wall-clock reading in microseconds. \<^verbatim>\<open>datetime.now()\<close> reads the
  local wall clock and is stored as the text \<^verbatim>\<open>YYYY-MM-DD HH:MM:SS.ffffff\<close>; the
  database computes \<^verbatim>\<open>datetime('now', '-1 minute')\<close> from the UTC wall clock as the
  text \<^verbatim>\<open>YYYY-MM-DD HH:MM:SS\<close>, cut to the second. The query compares the two as
  text. Two texts of this layout compare as their seconds do, and a fraction only
  makes the stored text longer, so the stored date passes \<^verbatim>\<open>>=\<close> exactly when its
  second is not before the second of the threshold.
\<close>

definition seconds :: "int \<Rightarrow> int" where
  "seconds t = t div 1000000"

definition minus_one_minute :: "int \<Rightarrow> int" where
  "minus_one_minute utc_now = seconds (utc_now - 60 * 1000000)"

definition date_ge :: "int \<Rightarrow> int \<Rightarrow> bool" where
  "date_ge stored threshold_seconds = (threshold_seconds \<le> seconds stored)"

record scan =
  scan_url :: string
  scan_date :: int
  scan_total_score :: int
  content_structure_score :: int
  technical_score :: int
  metadata_score :: int
  accessibility_score :: int
  speed_score :: int
  structured_data_present :: bool
  faq_present :: bool
  mobile_friendly :: bool

text \<open>
  \<^verbatim>\<open>save_scan_results\<close>, with the reading of the database clock (UTC) and of Python's
  clock (local time) as its first two arguments.
\<close>

definition save_scan_results ::
  "int \<Rightarrow> int \<Rightarrow> string \<Rightarrow> score_data \<Rightarrow> metadata \<Rightarrow> bool \<Rightarrow> bool \<Rightarrow> bool \<Rightarrow> speed_metrics
     \<Rightarrow> scan list \<Rightarrow> scan list" where
  "save_scan_results utc_now local_now url sd md structured faq mobile sm tbl =
     (if length (filter (\<lambda>r. scan_url r = url \<and> date_ge (scan_date r) (minus_one_minute utc_now))
                   tbl) > 0
      then tbl
      else tbl @ [\<lparr> scan_url = url, scan_date = local_now,
                     scan_total_score = total_score sd,
                     content_structure_score = content_structure (subscores sd),
                     technical_score = technical (subscores sd),
                     metadata_score = metadata_sub (subscores sd),
                     accessibility_score = accessibility_sub (subscores sd),
                     speed_score = performance_score sm,
                     structured_data_present = structured,
                     faq_present = faq,
                     mobile_friendly = mobile \<rparr>])"

record recommendation_row =
  rec_url :: string
  creation_date :: int
  rec_type :: string
  rec_description :: string
  priority :: int
  points_potential :: int
  status :: string
  implementation_date :: "int option"
  rec_notes :: "string option"

record issue =
  issue_type :: string
  message :: string
  issue_priority :: int
  points_available :: int

definition pending_count :: "string \<Rightarrow> string \<Rightarrow> recommendation_row list \<Rightarrow> nat" where
  "pending_count url ty tbl =
     length (filter (\<lambda>r. rec_url r = url \<and> rec_type r = ty \<and> status r = ''pending'') tbl)"

text \<open>
  The loop of \<^verbatim>\<open>save_recommendations\<close>. Each insert reads the clock anew: \<open>now i\<close> is
  the reading at the \<open>i\<close>-th issue of the list. The count sees the rows inserted
  earlier in the same call.
\<close>

fun save_recommendations_loop ::
  "(nat \<Rightarrow> int) \<Rightarrow> nat \<Rightarrow> string \<Rightarrow> issue list \<Rightarrow> recommendation_row list \<Rightarrow> recommendation_row list"
where
  "save_recommendations_loop now i url [] tbl = tbl"
| "save_recommendations_loop now i url (rec # recs) tbl =
     (if pending_count url (issue_type rec) tbl = 0
      then save_recommendations_loop now (Suc i) url recs
             (tbl @ [\<lparr> rec_url = url, creation_date = now i, rec_type = issue_type rec,
                       rec_description = message rec, priority = issue_priority rec,
                       points_potential = points_available rec, status = ''pending'',
                       implementation_date = None, rec_notes = None \<rparr>])
      else save_recommendations_loop now (Suc i) url recs tbl)"

definition save_recommendations ::
  "(nat \<Rightarrow> int) \<Rightarrow> string \<Rightarrow> issue list \<Rightarrow> recommendation_row list \<Rightarrow> recommendation_row list" where
  "save_recommendations now url recs tbl = save_recommendations_loop now 0 url recs tbl"

text \<open>At most one pending row for each pair of url and type.\<close>

definition one_pending_per_type :: "recommendation_row list \<Rightarrow> bool" where
  "one_pending_per_type tbl =
     distinct (map (\<lambda>r. (rec_url r, rec_type r)) (filter (\<lambda>r. status r = ''pending'') tbl))"

text \<open>
  \<^verbatim>\<open>get_historical_data\<close>: the two result sets as lists of rows, in the order of the
  query; the choice of columns is left out. \<^verbatim>\<open>ORDER BY scan_date\<close> is ascending;
  \<^verbatim>\<open>ORDER BY priority DESC, points_potential DESC\<close> is ascending in the negated pair.
\<close>

definition get_historical_data ::
  "string \<Rightarrow> scan list \<Rightarrow> recommendation_row list \<Rightarrow> scan list \<times> recommendation_row list" where
  "get_historical_data url scans recs =
     (sort_key scan_date (filter (\<lambda>r. scan_url r = url) scans),
      sort_key (\<lambda>r. (- priority r, - points_potential r)) (filter (\<lambda>r. rec_url r = url) recs))"

text \<open>
  The order the specification describes, a lower priority number being more urgent:
  most urgent first, and among equally urgent rows the higher potential first.
\<close>

definition most_urgent_first :: "recommendation_row list \<Rightarrow> bool" where
  "most_urgent_first rs =
     sorted_wrt (\<lambda>a b. priority a < priority b
                   \<or> (priority a = priority b \<and> points_potential b \<le> points_potential a)) rs"

text \<open>The order of the query: highest priority number first, then higher potential first.\<close>

definition priority_descending :: "recommendation_row list \<Rightarrow> bool" where
  "priority_descending rs =
     sorted_wrt (\<lambda>a b. priority b < priority a
                   \<or> (priority a = priority b \<and> points_potential b \<le> points_potential a)) rs"

text \<open>
  The order in which the progress dashboard lists the same rows (line 531):
  \<^verbatim>\<open>sort_values(["priority", "points_potential"], ascending=[True, False])\<close>.
\<close>

definition dashboard_order :: "recommendation_row list \<Rightarrow> recommendation_row list" where
  "dashboard_order rs = sort_key (\<lambda>r. (priority r, - points_potential r)) rs"

text \<open>
  The row a new recommendation is stored as.
\<close>

definition new_row :: "int \<Rightarrow> string \<Rightarrow> issue \<Rightarrow> recommendation_row" where
  "new_row t url rec =
     \<lparr> rec_url = url, creation_date = t, rec_type = issue_type rec,
       rec_description = message rec, priority = issue_priority rec,
       points_potential = points_available rec, status = ''pending'',
       implementation_date = None, rec_notes = None \<rparr>"

subsection \<open>Sample data\<close>

text \<open>
  The arguments of one analysis of a page with a title and an H1 heading, a viewport tag
  and no meta description; its speed metrics are the record \<open>analyze_page_speed\<close>
  returns.
\<close>

definition demo_metadata :: metadata where
  "demo_metadata = \<lparr> title = Some ''Hi'', description = ''Missing'', recommendation = '''' \<rparr>"

definition demo_headers :: headers where
  "demo_headers = \<lparr> h1_present = True, h2_present = False, h1_count = 1, h2_count = 0 \<rparr>"

definition demo_score :: score_data where
  "demo_score = calculate_rankscore demo_metadata demo_headers False False True True 0"

definition demo_speed :: speed_metrics where
  "demo_speed = fallback (NameError ''link'')"

text \<open>
  One call of \<open>save_scan_results\<close> for this page, at the given readings of the database
  clock and of Python's clock.
\<close>

definition demo_scan :: "int \<Rightarrow> int \<Rightarrow> scan list \<Rightarrow> scan list" where
  "demo_scan utc_now local_now tbl =
     save_scan_results utc_now local_now ''https://example.com/'' demo_score demo_metadata
       False False True demo_speed tbl"

text \<open>
  Three issues as the application passes them on, two of them of type \<^verbatim>\<open>speed\<close>,
  and two stored recommendations of different priority.
\<close>

definition demo_issues :: "issue list" where
  "demo_issues =
     [\<lparr> issue_type = ''speed'', message = ''Improve server response'', issue_priority = 1,
         points_available = 10 \<rparr>,
      \<lparr> issue_type = ''description'', message = ''Add a meta description'', issue_priority = 2,
         points_available = 10 \<rparr>,
      \<lparr> issue_type = ''speed'', message = ''Reduce page size'', issue_priority = 2,
         points_available = 10 \<rparr>]"

definition title_issue :: recommendation_row where
  "title_issue = \<lparr> rec_url = ''https://example.com/'', creation_date = 0, rec_type = ''title'',
       rec_description = ''Add a descriptive title tag'', priority = 1, points_potential = 10,
       status = ''pending'', implementation_date = None, rec_notes = None \<rparr>"

definition faq_issue :: recommendation_row where
  "faq_issue = \<lparr> rec_url = ''https://example.com/'', creation_date = 0, rec_type = ''faq'',
       rec_description = ''Add FAQ schema markup'', priority = 3, points_potential = 10,
       status = ''pending'', implementation_date = None, rec_notes = None \<rparr>"

section \<open>Theorems\<close>

subsection \<open>Scorer\<close>

text \<open>
  Claim C1. For every input, the total score of \<open>calculate_rankscore\<close> is the sum of its
  eight component scores, the components follow the fixed allocation (25, 20, 15, 10, 10,
  8, 7, 5), the total lies between 0 and 100, and it is exactly 100 when every signal is
  positive.
\<close>

theorem calculate_rankscore_total:
  "total_score (calculate_rankscore md hs sd faq mob acc perf)
     = component_sum (component_scores (calculate_rankscore md hs sd faq mob acc perf))
   \<and> allocation_ok md hs sd faq mob acc perf
       (component_scores (calculate_rankscore md hs sd faq mob acc perf))
   \<and> 0 \<le> total_score (calculate_rankscore md hs sd faq mob acc perf)
   \<and> total_score (calculate_rankscore md hs sd faq mob acc perf) \<le> 100
   \<and> (sd \<and> faq \<and> h1_present hs \<and> title md \<noteq> Some ''Missing'' \<and> 80 \<le> perf
        \<and> description md \<noteq> ''Missing'' \<and> mob \<and> acc
      \<longrightarrow> total_score (calculate_rankscore md hs sd faq mob acc perf) = 100)"
  by (simp add: calculate_rankscore_def component_sum_def allocation_ok_def Let_def)

theorem calculate_rankscore_total_witness:
  "total_score (calculate_rankscore
      \<lparr>title = Some ''Recipes'', description = ''Easy recipes'', recommendation = ''''\<rparr>
      \<lparr>h1_present = True, h2_present = False, h1_count = 1, h2_count = 0\<rparr>
      True True True True 100) = 100"
  using calculate_rankscore_total
    [of "\<lparr>title = Some ''Recipes'', description = ''Easy recipes'', recommendation = ''''\<rparr>"
        "\<lparr>h1_present = True, h2_present = False, h1_count = 1, h2_count = 0\<rparr>"
        True True True True 100]
  by simp

subsection \<open>Speed extractor\<close>

lemma iterable_script_raises: "\<exists>e. iterable_script g sp = Inl e"
  by (cases "g ''link''"; cases "py_getitem (the (g ''link'')) ''href''")
     (simp_all add: iterable_script_def load_global_def)

lemma iterable_script_unbound:
  "g ''link'' = None \<Longrightarrow> iterable_script g sp = Inl (NameError ''link'')"
  by (simp add: iterable_script_def load_global_def)

lemma discover_resources_raises: "\<exists>e. discover_resources g sp = Inl e"
  using iterable_script_raises [of g sp] by (auto simp: discover_resources_def)

text \<open>If it were reached, the penalty rule of the code would be the rule of the specification.\<close>

lemma penalty_score_spec: "penalty_score a b c d = spec_performance_score a b c d"
  by (simp add: penalty_score_def spec_performance_score_def Let_def)

text \<open>
  Claim C9. Whatever the page and the network do, \<open>analyze_page_speed\<close> returns the record
  of its \<^verbatim>\<open>except\<close> clause, with performance score 0 and every time, size and count 0:
  the resource discovery raises for every document, with \<^verbatim>\<open>NameError\<close> for the name
  \<^verbatim>\<open>link\<close> when no global of that name exists, and a list plus a tuple is a
  \<^verbatim>\<open>TypeError\<close> in any case, so that no score is ever computed.
\<close>

theorem analyze_page_speed_fallback:
  "(\<exists>e. analyze_page_speed w url = fallback e)
   \<and> performance_score (analyze_page_speed w url) = 0
   \<and> total_time (analyze_page_speed w url) = 0
   \<and> time_to_first_byte (analyze_page_speed w url) = 0
   \<and> total_size (analyze_page_speed w url) = 0
   \<and> resource_count (analyze_page_speed w url) = 0
   \<and> resource_types (analyze_page_speed w url) = []
   \<and> (\<exists>e. discover_resources (module_globals w) sp = Inl e)
   \<and> (module_globals w ''link'' = None \<longrightarrow>
        discover_resources (module_globals w) sp = Inl (NameError ''link''))
   \<and> py_add (PList xs) (PTuple ys) = Inl TypeError"
proof -
  have raises: "\<And>s. \<exists>e. discover_resources (module_globals w) s = Inl e"
    by (rule discover_resources_raises)
  have fb: "\<exists>e. analyze_page_speed w url = fallback e"
  proof (cases "http_get w url")
    case (Inl e)
    then show ?thesis by (auto simp: analyze_page_speed_def)
  next
    case (Inr body)
    show ?thesis
    proof (cases "parse_html w body")
      case (Inl e)
      with Inr show ?thesis by (auto simp: analyze_page_speed_def)
    next
      case parsed: (Inr s)
      from raises [of s] obtain e where "discover_resources (module_globals w) s = Inl e" ..
      with Inr parsed show ?thesis by (auto simp: analyze_page_speed_def)
    qed
  qed
  then obtain e where e: "analyze_page_speed w url = fallback e" ..
  have nm: "module_globals w ''link'' = None \<longrightarrow>
        discover_resources (module_globals w) sp = Inl (NameError ''link'')"
    by (simp add: discover_resources_def iterable_script_unbound)
  show ?thesis using fb raises [of sp] nm by (simp add: e fallback_def)
qed

theorem analyze_page_speed_fallback_witness:
  "analyze_page_speed quiet_world ''https://example.com/'' = fallback (NameError ''link'')"
proof -
  have g: "module_globals quiet_world ''link'' = None" by (simp add: quiet_world_def)
  from analyze_page_speed_fallback
    [of quiet_world "''https://example.com/''"
        "[Tag ''html'' [] [Tag ''head'' [] [Tag ''title'' [] [NavigableString ''Hi'']]]]"]
  have "discover_resources (module_globals quiet_world)
          [Tag ''html'' [] [Tag ''head'' [] [Tag ''title'' [] [NavigableString ''Hi'']]]]
        = Inl (NameError ''link'')"
    using g by blast
  then show ?thesis by (simp add: analyze_page_speed_def quiet_world_def)
qed

text \<open>
  Claim C3. The claim asks for 100 less 20 for each threshold that fires. On a page
  with a first byte after 50 ms, 120 ms in all and no linked resource, no threshold
  fires and the rule gives 100, but \<open>analyze_page_speed\<close> reports 0: the rule is never
  reached.
\<close>

theorem analyze_page_speed_quiet_page:
  "performance_score (analyze_page_speed quiet_world ''https://example.com/'') = 0
   \<and> spec_performance_score (ttfb_ms quiet_world) (total_ms quiet_world) 0 0 = 100
   \<and> penalty_score (ttfb_ms quiet_world) (total_ms quiet_world) 0 0 = 100"
  by (simp add: analyze_page_speed_def quiet_world_def discover_resources_def
      iterable_script_def load_global_def fallback_def spec_performance_score_def
      penalty_score_def)

subsection \<open>Accessibility extractor\<close>

lemma length_filter_eq_all: "(length (filter P xs) = length xs) = (\<forall>x\<in>set xs. P x)"
proof (induction xs)
  case Nil
  then show ?case by simp
next
  case (Cons x xs)
  have "length (filter P xs) \<le> length xs" by simp
  then have "length (filter P xs) \<noteq> Suc (length xs)" by arith
  with Cons show ?case by auto
qed

text \<open>
  Claim C6, as amended. The accessibility signal is true exactly when every image
  element carries an alt attribute, empty or not; a document without images yields
  true.
\<close>

theorem analyze_accessibility_alt_present:
  "analyze_accessibility sp
     = (\<forall>img \<in> set (find_all ''img'' (\<lambda>t. True) sp). has_attr ''alt'' img)
   \<and> (find_all ''img'' (\<lambda>t. True) sp = [] \<longrightarrow> analyze_accessibility sp)"
  by (simp add: analyze_accessibility_def Let_def length_filter_eq_all)

theorem analyze_accessibility_alt_present_witness:
  "analyze_accessibility [Tag ''p'' [] [NavigableString ''no pictures'']]
   \<and> analyze_accessibility [Tag ''img'' [(''src'', ''a.png''), (''alt'', ''a cat'')] []]
   \<and> \<not> analyze_accessibility [Tag ''img'' [(''src'', ''a.png'')] []]"
  using analyze_accessibility_alt_present [of "[Tag ''p'' [] [NavigableString ''no pictures'']]"]
    analyze_accessibility_alt_present
      [of "[Tag ''img'' [(''src'', ''a.png''), (''alt'', ''a cat'')] []]"]
    analyze_accessibility_alt_present [of "[Tag ''img'' [(''src'', ''a.png'')] []]"]
  by (simp add: find_all_def soup_descendants_def has_attr_def)

text \<open>
  An image with an empty alt attribute: the extractor answers true, the count of images
  with a non-empty alt attribute differs from the count of images.
\<close>

theorem analyze_accessibility_empty_alt:
  "analyze_accessibility [Tag ''img'' [(''src'', ''a.png''), (''alt'', '''')] []]
   \<and> \<not> spec_accessibility [Tag ''img'' [(''src'', ''a.png''), (''alt'', '''')] []]"
  by (simp add: analyze_accessibility_def spec_accessibility_def find_all_def
      soup_descendants_def has_attr_def nonempty_alt_def)

subsection \<open>Lite score\<close>

lemma soup_title_present:
  "(soup_title sp \<noteq> None) = (\<exists>t \<in> set (soup_descendants sp). tag_named ''title'' t)"
  by (auto simp: soup_title_def find_None_iff)

text \<open>
  Claim C10. The Lite score is one of 65, 50 and 0: 65 exactly when the page is fetched
  and parsed and has a title element, 50 exactly when it is fetched and parsed and has
  none, 0 exactly when the fetch or the parse raises. Nothing else enters.
\<close>

theorem analyze_lite_aeo_values:
  "analyze_lite_aeo w url \<in> {65, 50, 0}
   \<and> (analyze_lite_aeo w url = 65) =
       (\<exists>body sp. http_get w url = Inr body \<and> parse_html w body = Inr sp
          \<and> (\<exists>t \<in> set (soup_descendants sp). tag_named ''title'' t))
   \<and> (analyze_lite_aeo w url = 50) =
       (\<exists>body sp. http_get w url = Inr body \<and> parse_html w body = Inr sp
          \<and> \<not> (\<exists>t \<in> set (soup_descendants sp). tag_named ''title'' t))
   \<and> (analyze_lite_aeo w url = 0) =
       ((\<exists>e. http_get w url = Inl e)
        \<or> (\<exists>body e. http_get w url = Inr body \<and> parse_html w body = Inl e))"
  unfolding analyze_lite_aeo_def Let_def soup_title_present
  by (auto split: sum.splits)

theorem analyze_lite_aeo_values_witness:
  "analyze_lite_aeo quiet_world ''https://example.com/'' = 65
   \<and> analyze_lite_aeo (quiet_world\<lparr>parse_html := (\<lambda>t. Inr [Tag ''p'' [] []])\<rparr>)
       ''https://example.com/'' = 50
   \<and> analyze_lite_aeo (quiet_world\<lparr>http_get := (\<lambda>u. Inl (RequestException ''timeout''))\<rparr>)
       ''https://example.com/'' = 0"
  using analyze_lite_aeo_values [of quiet_world "''https://example.com/''"]
    analyze_lite_aeo_values [of "quiet_world\<lparr>parse_html := (\<lambda>t. Inr [Tag ''p'' [] []])\<rparr>"
                                "''https://example.com/''"]
    analyze_lite_aeo_values
      [of "quiet_world\<lparr>http_get := (\<lambda>u. Inl (RequestException ''timeout''))\<rparr>"
          "''https://example.com/''"]
  by (simp add: quiet_world_def soup_descendants_def)

subsection \<open>Access gate\<close>

lemma find_Some_member: "find P xs = Some x \<Longrightarrow> x \<in> set xs \<and> P x"
  by (induction xs) (simp_all split: if_splits)

lemma validate_access_code_Some:
  "validate_access_code tbl c = Some r \<Longrightarrow> r \<in> set tbl \<and> code r = c \<and> \<not> used r"
  unfolding validate_access_code_def
  by (drule find_Some_member) simp

lemma validate_access_code_None:
  "(validate_access_code tbl c = None) = (\<forall>r \<in> set tbl. code r = c \<longrightarrow> used r)"
  by (auto simp: validate_access_code_def find_None_iff)

lemma mark_code_as_used_raises:
  "length c \<noteq> 1 \<Longrightarrow> mark_code_as_used tbl c = Inl ProgrammingError"
  by (simp add: mark_code_as_used_def)

text \<open>
  Claim C2. A stored, unused code of eight characters, the length every issued code
  has, validates; marking it as used raises \<^verbatim>\<open>ProgrammingError\<close> and the table stays
  as it was, so the same code validates again. The flag makes no transition where the
  claim asks for exactly one.
\<close>

theorem mark_code_as_used_issued_code:
  "validate_access_code [\<lparr>email = ''a@b.c'', code = ''ABCDEFGH'', used = False\<rparr>] ''ABCDEFGH''
      = Some \<lparr>email = ''a@b.c'', code = ''ABCDEFGH'', used = False\<rparr>
   \<and> mark_code_as_used [\<lparr>email = ''a@b.c'', code = ''ABCDEFGH'', used = False\<rparr>] ''ABCDEFGH''
      = Inl ProgrammingError"
  by (simp add: validate_access_code_def mark_code_as_used_def)

lemma save_access_code_locked: "save_access_code gen k True addr tbl = Inl OperationalError"
  by (subst save_access_code.simps) simp

lemma save_access_code_collision:
  "addr \<in> set (map email tbl) \<or> gen k \<in> set (map code tbl)
   \<Longrightarrow> save_access_code gen k False addr tbl = Inl OperationalError"
  by (subst save_access_code.simps) (simp add: save_access_code_locked)

lemma save_access_code_fresh:
  "addr \<notin> set (map email tbl) \<Longrightarrow> gen k \<notin> set (map code tbl)
   \<Longrightarrow> save_access_code gen k False addr tbl
       = Inr (gen k, tbl @ [\<lparr> email = addr, code = gen k, used = False \<rparr>])"
  by (subst save_access_code.simps) simp

text \<open>
  Claim C4. For an email that is stored already, \<open>save_access_code\<close> returns no code,
  whatever the random source draws: the insert collides, the retry runs while the first
  connection holds the write lock, and the call ends in \<^verbatim>\<open>OperationalError\<close>.
\<close>

theorem save_access_code_stored_email:
  "save_access_code gen 0 False ''a@b.c''
     [\<lparr>email = ''a@b.c'', code = ''ABCDEFGH'', used = False\<rparr>] = Inl OperationalError"
  by (rule save_access_code_collision) simp

subsection \<open>History store\<close>

lemma minus_one_minute_seconds: "minus_one_minute t = seconds t - 60"
  by (simp add: minus_one_minute_def seconds_def)

lemma recent_passes:
  assumes "t \<le> d + 60 * 1000000"
  shows "date_ge d (minus_one_minute t)"
proof -
  from assms have "t - 60 * 1000000 \<le> d" by simp
  then have "(t - 60 * 1000000) div 1000000 \<le> d div 1000000"
    by (rule zdiv_mono1) simp
  then show ?thesis by (simp add: date_ge_def minus_one_minute_def seconds_def)
qed

lemma old_fails:
  assumes "d + 61 * 1000000 \<le> t"
  shows "\<not> date_ge d (minus_one_minute t)"
proof -
  from assms have "d + 61 * 1000000 \<le> t" .
  then have "(d + 61 * 1000000) div 1000000 \<le> t div 1000000"
    by (rule zdiv_mono1) simp
  then have "d div 1000000 + 61 \<le> t div 1000000" by simp
  then show ?thesis by (simp add: date_ge_def minus_one_minute_seconds seconds_def)
qed

text \<open>
  Claim C8, as amended. With both clocks reading the same wall time \<open>t\<close>,
  \<open>save_scan_results\<close> stores nothing and returns normally when a record of the url is at
  most 60 seconds old, and appends one record, dated \<open>t\<close>, when every record of the url
  is at least 61 seconds old.
\<close>

theorem save_scan_results_debounce:
  "((\<exists>r \<in> set tbl. scan_url r = url \<and> t \<le> scan_date r + 60 * 1000000)
      \<longrightarrow> save_scan_results t t url sd md st fq mb sm tbl = tbl)
   \<and> ((\<forall>r \<in> set tbl. scan_url r = url \<longrightarrow> scan_date r + 61 * 1000000 \<le> t)
      \<longrightarrow> length (save_scan_results t t url sd md st fq mb sm tbl) = Suc (length tbl)
          \<and> butlast (save_scan_results t t url sd md st fq mb sm tbl) = tbl
          \<and> scan_url (last (save_scan_results t t url sd md st fq mb sm tbl)) = url
          \<and> scan_date (last (save_scan_results t t url sd md st fq mb sm tbl)) = t)"
proof (intro conjI impI)
  assume "\<exists>r \<in> set tbl. scan_url r = url \<and> t \<le> scan_date r + 60 * 1000000"
  then obtain r where r: "r \<in> set tbl" "scan_url r = url" "t \<le> scan_date r + 60 * 1000000"
    by blast
  from r(3) have "date_ge (scan_date r) (minus_one_minute t)" by (rule recent_passes)
  with r(1,2) have "r \<in> set (filter (\<lambda>r. scan_url r = url
      \<and> date_ge (scan_date r) (minus_one_minute t)) tbl)" by simp
  then have "filter (\<lambda>r. scan_url r = url \<and> date_ge (scan_date r) (minus_one_minute t)) tbl \<noteq> []"
    by (metis empty_iff empty_set)
  then show "save_scan_results t t url sd md st fq mb sm tbl = tbl"
    by (simp add: save_scan_results_def)
next
  assume old: "\<forall>r \<in> set tbl. scan_url r = url \<longrightarrow> scan_date r + 61 * 1000000 \<le> t"
  have "filter (\<lambda>r. scan_url r = url \<and> date_ge (scan_date r) (minus_one_minute t)) tbl = []"
    unfolding filter_empty_conv
  proof (intro ballI)
    fix r assume "r \<in> set tbl"
    with old have "scan_url r = url \<longrightarrow> \<not> date_ge (scan_date r) (minus_one_minute t)"
      using old_fails by blast
    then show "\<not> (scan_url r = url \<and> date_ge (scan_date r) (minus_one_minute t))" by blast
  qed
  then have eq: "\<exists>row. save_scan_results t t url sd md st fq mb sm tbl = tbl @ [row]
       \<and> scan_url row = url \<and> scan_date row = t"
    by (simp add: save_scan_results_def)
  then obtain row where row: "save_scan_results t t url sd md st fq mb sm tbl = tbl @ [row]"
    "scan_url row = url" "scan_date row = t" by blast
  from row show "length (save_scan_results t t url sd md st fq mb sm tbl) = Suc (length tbl)"
    by simp
  from row show "butlast (save_scan_results t t url sd md st fq mb sm tbl) = tbl" by simp
  from row show "scan_url (last (save_scan_results t t url sd md st fq mb sm tbl)) = url" by simp
  from row show "scan_date (last (save_scan_results t t url sd md st fq mb sm tbl)) = t" by simp
qed

theorem save_scan_results_debounce_witness:
  "length (demo_scan 30000000 30000000 (demo_scan 0 0 [])) = 1
   \<and> length (demo_scan 61000000 61000000 (demo_scan 0 0 [])) = 2"
proof -
  have first: "set (demo_scan 0 0 []) = {hd (demo_scan 0 0 [])}"
    and u: "scan_url (hd (demo_scan 0 0 [])) = ''https://example.com/''"
    and d: "scan_date (hd (demo_scan 0 0 [])) = 0"
    and l: "length (demo_scan 0 0 []) = 1"
    by (simp_all add: demo_scan_def save_scan_results_def)
  have a: "\<exists>r \<in> set (demo_scan 0 0 []). scan_url r = ''https://example.com/''
      \<and> (30000000::int) \<le> scan_date r + 60 * 1000000"
    by (simp add: first u d)
  have b: "\<forall>r \<in> set (demo_scan 0 0 []). scan_url r = ''https://example.com/''
      \<longrightarrow> scan_date r + 61 * 1000000 \<le> (61000000::int)"
    by (simp add: first u d)
  from save_scan_results_debounce
    [of "demo_scan 0 0 []" "''https://example.com/''" 30000000 demo_score demo_metadata
        False False True demo_speed] a
  have one: "demo_scan 30000000 30000000 (demo_scan 0 0 []) = demo_scan 0 0 []"
    unfolding demo_scan_def by blast
  from save_scan_results_debounce
    [of "demo_scan 0 0 []" "''https://example.com/''" 61000000 demo_score demo_metadata
        False False True demo_speed] b
  have two: "length (demo_scan 61000000 61000000 (demo_scan 0 0 [])) = Suc (length (demo_scan 0 0 []))"
    unfolding demo_scan_def by blast
  from one two l show ?thesis by simp
qed

text \<open>
  With equal clocks, a second call 60.5 seconds after the first stores nothing. With
  the local clock five hours behind UTC, a second call one second after the first stores
  a second record. With the local clock two hours ahead of UTC, a second call two hours
  after the first stores nothing.
\<close>

theorem save_scan_results_not_sixty_seconds:
  "(60 * 1000000 < (60700000::int) - 200000
      \<and> length (demo_scan 60700000 60700000 (demo_scan 200000 200000 [])) = 1)
   \<and> (length (demo_scan (18001 * 1000000) (1 * 1000000) (demo_scan (18000 * 1000000) 0 [])) = 2)
   \<and> (length (demo_scan (7200 * 1000000) (14400 * 1000000) (demo_scan 0 (7200 * 1000000) [])) = 1)"
  by (simp add: demo_scan_def save_scan_results_def date_ge_def minus_one_minute_def seconds_def)

lemma pending_count_zero:
  "(pending_count url ty tbl = 0)
     = ((url, ty) \<notin> set (map (\<lambda>r. (rec_url r, rec_type r)) (filter (\<lambda>r. status r = ''pending'') tbl)))"
  by (auto simp: pending_count_def filter_empty_conv)

lemma pending_count_append:
  "pending_count url ty (tbl @ rows) = pending_count url ty tbl + pending_count url ty rows"
  by (simp add: pending_count_def)

lemma pending_count_new_row: "pending_count url (issue_type rec) [new_row t url rec] = 1"
  by (simp add: pending_count_def new_row_def)

lemma one_pending_append:
  assumes "one_pending_per_type tbl" and "pending_count url (issue_type rec) tbl = 0"
  shows "one_pending_per_type (tbl @ [new_row t url rec])"
proof -
  from assms(2) have "(url, issue_type rec)
      \<notin> set (map (\<lambda>r. (rec_url r, rec_type r)) (filter (\<lambda>r. status r = ''pending'') tbl))"
    unfolding pending_count_zero .
  with assms(1) show ?thesis
    by (simp add: one_pending_per_type_def new_row_def)
qed

lemma loop_step:
  "save_recommendations_loop now i url (rec # recs) tbl =
     (if pending_count url (issue_type rec) tbl = 0
      then save_recommendations_loop now (Suc i) url recs (tbl @ [new_row (now i) url rec])
      else save_recommendations_loop now (Suc i) url recs tbl)"
  by (simp add: new_row_def)

lemma loop_invariant:
  "one_pending_per_type tbl \<Longrightarrow> one_pending_per_type (save_recommendations_loop now i url recs tbl)"
proof (induction recs arbitrary: tbl i)
  case Nil
  then show ?case by simp
next
  case (Cons rec recs)
  show ?case
  proof (cases "pending_count url (issue_type rec) tbl = 0")
    case True
    with Cons.prems have "one_pending_per_type (tbl @ [new_row (now i) url rec])"
      by (simp add: one_pending_append)
    then have "one_pending_per_type
        (save_recommendations_loop now (Suc i) url recs (tbl @ [new_row (now i) url rec]))"
      by (rule Cons.IH)
    with True show ?thesis by (simp add: loop_step del: save_recommendations_loop.simps)
  next
    case False
    from Cons.prems have "one_pending_per_type (save_recommendations_loop now (Suc i) url recs tbl)"
      by (rule Cons.IH)
    with False show ?thesis by (simp add: loop_step del: save_recommendations_loop.simps)
  qed
qed

lemma loop_keeps_pending:
  "pending_count url ty tbl \<noteq> 0
   \<Longrightarrow> pending_count url ty (save_recommendations_loop now i url recs tbl) \<noteq> 0"
proof (induction recs arbitrary: tbl i)
  case Nil
  then show ?case by simp
next
  case (Cons rec recs)
  from Cons.prems have "pending_count url ty (tbl @ [new_row (now i) url rec]) \<noteq> 0"
    by (simp add: pending_count_append)
  then have a: "pending_count url ty
      (save_recommendations_loop now (Suc i) url recs (tbl @ [new_row (now i) url rec])) \<noteq> 0"
    by (rule Cons.IH)
  from Cons.prems have b: "pending_count url ty (save_recommendations_loop now (Suc i) url recs tbl) \<noteq> 0"
    by (rule Cons.IH)
  from a b show ?case by (simp add: loop_step del: save_recommendations_loop.simps)
qed

lemma loop_covers:
  "rec \<in> set recs
   \<Longrightarrow> pending_count url (issue_type rec) (save_recommendations_loop now i url recs tbl) \<noteq> 0"
proof (induction recs arbitrary: tbl i)
  case Nil
  then show ?case by simp
next
  case (Cons r recs)
  show ?case
  proof (cases "rec = r")
    case True
    show ?thesis
    proof (cases "pending_count url (issue_type r) tbl = 0")
      case zero: True
      have "pending_count url (issue_type r) (tbl @ [new_row (now i) url r]) \<noteq> 0"
        by (simp add: pending_count_append pending_count_new_row)
      then have "pending_count url (issue_type r)
          (save_recommendations_loop now (Suc i) url recs (tbl @ [new_row (now i) url r])) \<noteq> 0"
        by (rule loop_keeps_pending)
      with zero True show ?thesis by (simp add: loop_step del: save_recommendations_loop.simps)
    next
      case nonzero: False
      then have "pending_count url (issue_type r)
          (save_recommendations_loop now (Suc i) url recs tbl) \<noteq> 0"
        by (rule loop_keeps_pending)
      with nonzero True show ?thesis by (simp add: loop_step del: save_recommendations_loop.simps)
    qed
  next
    case False
    with Cons.prems have mem: "rec \<in> set recs" by simp
    have a: "pending_count url (issue_type rec)
        (save_recommendations_loop now (Suc i) url recs (tbl @ [new_row (now i) url r])) \<noteq> 0"
      by (rule Cons.IH [OF mem])
    have b: "pending_count url (issue_type rec)
        (save_recommendations_loop now (Suc i) url recs tbl) \<noteq> 0"
      by (rule Cons.IH [OF mem])
    from a b show ?thesis by (simp add: loop_step del: save_recommendations_loop.simps)
  qed
qed

lemma loop_skips_all:
  "\<forall>rec \<in> set recs. pending_count url (issue_type rec) tbl \<noteq> 0
   \<Longrightarrow> save_recommendations_loop now i url recs tbl = tbl"
proof (induction recs arbitrary: i)
  case Nil
  then show ?case by simp
next
  case (Cons r recs)
  from Cons.prems have nz: "pending_count url (issue_type r) tbl \<noteq> 0" by simp
  from Cons.prems have "\<forall>rec \<in> set recs. pending_count url (issue_type rec) tbl \<noteq> 0" by simp
  then have "save_recommendations_loop now (Suc i) url recs tbl = tbl" by (rule Cons.IH)
  with nz show ?case by (simp add: loop_step del: save_recommendations_loop.simps)
qed

text \<open>
  Claim C7. \<open>save_recommendations\<close> keeps the invariant that each pair of url and type
  has at most one pending row; a second call with the same issues, whenever it runs,
  changes nothing; and one issue is inserted exactly when no pending row of its url and
  type exists.
\<close>

theorem save_recommendations_no_duplicates:
  "(one_pending_per_type tbl \<longrightarrow> one_pending_per_type (save_recommendations now url recs tbl))
   \<and> save_recommendations now2 url recs (save_recommendations now url recs tbl)
       = save_recommendations now url recs tbl
   \<and> (pending_count url (issue_type rec) tbl \<noteq> 0 \<longrightarrow> save_recommendations now url [rec] tbl = tbl)
   \<and> (pending_count url (issue_type rec) tbl = 0 \<longrightarrow>
        save_recommendations now url [rec] tbl
          = tbl @ [\<lparr> rec_url = url, creation_date = now 0, rec_type = issue_type rec,
                     rec_description = message rec, priority = issue_priority rec,
                     points_potential = points_available rec, status = ''pending'',
                     implementation_date = None, rec_notes = None \<rparr>])"
proof (intro conjI impI)
  assume "one_pending_per_type tbl"
  then show "one_pending_per_type (save_recommendations now url recs tbl)"
    unfolding save_recommendations_def by (rule loop_invariant)
next
  have "\<forall>rec \<in> set recs.
      pending_count url (issue_type rec) (save_recommendations_loop now 0 url recs tbl) \<noteq> 0"
    by (simp add: loop_covers)
  then show "save_recommendations now2 url recs (save_recommendations now url recs tbl)
       = save_recommendations now url recs tbl"
    unfolding save_recommendations_def by (rule loop_skips_all)
next
  assume "pending_count url (issue_type rec) tbl \<noteq> 0"
  then show "save_recommendations now url [rec] tbl = tbl"
    by (simp add: save_recommendations_def)
next
  assume "pending_count url (issue_type rec) tbl = 0"
  then show "save_recommendations now url [rec] tbl
          = tbl @ [\<lparr> rec_url = url, creation_date = now 0, rec_type = issue_type rec,
                     rec_description = message rec, priority = issue_priority rec,
                     points_potential = points_available rec, status = ''pending'',
                     implementation_date = None, rec_notes = None \<rparr>]"
    by (simp add: save_recommendations_def)
qed

theorem save_recommendations_no_duplicates_witness:
  "one_pending_per_type (save_recommendations (\<lambda>i. 100 + int i) ''https://example.com/'' demo_issues [])
   \<and> map rec_type (save_recommendations (\<lambda>i. 100 + int i) ''https://example.com/'' demo_issues [])
       = [''speed'', ''description'']
   \<and> save_recommendations (\<lambda>i. 900 + int i) ''https://example.com/'' demo_issues
        (save_recommendations (\<lambda>i. 100 + int i) ''https://example.com/'' demo_issues [])
       = save_recommendations (\<lambda>i. 100 + int i) ''https://example.com/'' demo_issues []"
proof -
  have inv0: "one_pending_per_type []" by (simp add: one_pending_per_type_def)
  have types: "map rec_type
      (save_recommendations (\<lambda>i. 100 + int i) ''https://example.com/'' demo_issues [])
       = [''speed'', ''description'']"
    by (simp add: save_recommendations_def demo_issues_def pending_count_def)
  from save_recommendations_no_duplicates
    [of "[]" "\<lambda>i. 100 + int i" "''https://example.com/''" demo_issues "\<lambda>i. 900 + int i"]
    inv0 types
  show ?thesis by simp
qed

lemma priority_descending_sort:
  "priority_descending (sort_key (\<lambda>r. (- priority r, - points_potential r)) rs)"
proof -
  let ?k = "\<lambda>r. (- priority r, - points_potential r)"
  have "sorted (map ?k (sort_key ?k rs))"
    by (rule sorted_sort_key)
  then have "sorted_wrt (\<lambda>a b. ?k a \<le> ?k b) (sort_key ?k rs)"
    by (simp only: sorted_map)
  then have "sorted_wrt (\<lambda>a b. priority b < priority a
                   \<or> (priority a = priority b \<and> points_potential b \<le> points_potential a))
               (sort_key ?k rs)"
    by (rule sorted_wrt_mono_rel [rotated]) (auto simp: less_eq_prod_def)
  then show ?thesis by (simp only: priority_descending_def)
qed

text \<open>
  What the query does: the recommendations of the url, each as often as stored, by
  descending priority number and, among equal priority, the higher potential first.
\<close>

lemma get_historical_data_descending:
  "priority_descending (snd (get_historical_data url scans recs))
   \<and> mset (snd (get_historical_data url scans recs))
       = mset (filter (\<lambda>r. rec_url r = url) recs)"
  by (simp add: get_historical_data_def priority_descending_sort)

text \<open>
  Claim C5. The claim asks for the most urgent recommendation first. For a title issue
  of priority 1 and a FAQ issue of priority 3, \<open>get_historical_data\<close> returns the FAQ
  issue first, which is not most urgent first; the dashboard's own sort of the same
  rows is.
\<close>

theorem get_historical_data_least_urgent_first:
  "map priority (snd (get_historical_data ''https://example.com/'' [] [title_issue, faq_issue]))
     = [3, 1]
   \<and> \<not> most_urgent_first
         (snd (get_historical_data ''https://example.com/'' [] [title_issue, faq_issue]))
   \<and> most_urgent_first
         (dashboard_order
           (snd (get_historical_data ''https://example.com/'' [] [title_issue, faq_issue])))"
  by (simp add: get_historical_data_def most_urgent_first_def dashboard_order_def
      title_issue_def faq_issue_def less_eq_prod_def)

end
